theory Spec2Isabelle
  imports Main "HOL-Library.AList" "HOL-Library.Sublist"
begin

section \<open>Python values and exceptions\<close>

text \<open>
  The storage layer of pyLSHash (\<^verbatim>\<open>pyLSHash/storage.py\<close>) stores arbitrary Python
  objects. The values the model distinguishes are the ones the module and its JSON codec
  treat differently: \<^verbatim>\<open>None\<close>, booleans, integers, text strings, lists, tuples,
  dictionaries and byte strings (an object \<^verbatim>\<open>json.dumps\<close> rejects). Floats are left
  out. A dictionary is an association list in insertion order; its keys are the scalar
  hashable values that \<^verbatim>\<open>json.dumps\<close> accepts as keys.

  Values are immutable snapshots. The in-memory backend stores references, so a caller
  that keeps a reference to a stored object and mutates it, or that stores one list
  object under two keys, shares state with the backend; such callers are outside the
  model, which follows what the methods themselves do to the storage.
\<close>

datatype pykey = KStr string | KInt int | KBool bool | KNone

datatype pyval =
    PNone
  | PBool bool
  | PInt int
  | PStr string
  | PBytes string
  | PList "pyval list"
  | PTuple "pyval list"
  | PDict "(pykey \<times> pyval) list"

text \<open>The exceptions that the module raises itself or lets through.\<close>

datatype error =
    KeyError            \<comment> \<open>\<^verbatim>\<open>self.storage[key]\<close> on a missing key\<close>
  | AttributeError      \<comment> \<open>\<^verbatim>\<open>.append\<close> on an object that is not a list\<close>
  | ValueError          \<comment> \<open>raised by the factory\<close>
  | ImportError         \<comment> \<open>raised by \<^verbatim>\<open>RedisStorage.__init__\<close>\<close>
  | TypeError           \<comment> \<open>\<^verbatim>\<open>json.dumps\<close> on an object it cannot serialise\<close>
  | ResponseError       \<comment> \<open>the service's WRONGTYPE reply\<close>

text \<open>Bucket keys are the binary hash strings of the index.\<close>

type_synonym key = string

section \<open>The in-memory backend\<close>

text \<open>
  \<^verbatim>\<open>InMemoryStorage\<close> has two attributes, \<^verbatim>\<open>self.name\<close> and \<^verbatim>\<open>self.storage\<close>, the
  latter one Python \<^verbatim>\<open>dict\<close> shared by the scalar and the list operations. The dict is
  an association list in insertion order: \<open>AList.update\<close> overwrites the value of a
  present key in place and adds an absent key at the end, as item assignment does.
\<close>

record InMemoryStorage =
  mem_name :: string
  mem_storage :: "(key \<times> pyval) list"

definition InMemoryStorage_init :: "'c \<Rightarrow> InMemoryStorage" where
  "InMemoryStorage_init config = \<lparr>mem_name = ''dict'', mem_storage = []\<rparr>"

definition InMemoryStorage_keys :: "InMemoryStorage \<Rightarrow> key list" where
  "InMemoryStorage_keys self = map fst (mem_storage self)"

definition InMemoryStorage_set_val :: "key \<Rightarrow> pyval \<Rightarrow> InMemoryStorage \<Rightarrow> InMemoryStorage" where
  "InMemoryStorage_set_val k val self =
     self\<lparr>mem_storage := AList.update k val (mem_storage self)\<rparr>"

definition InMemoryStorage_get_val :: "key \<Rightarrow> InMemoryStorage \<Rightarrow> error + pyval" where
  "InMemoryStorage_get_val k self =
     (case map_of (mem_storage self) k of
        None \<Rightarrow> Inl KeyError
      | Some v \<Rightarrow> Inr v)"

text \<open>
  \<^verbatim>\<open>self.storage.setdefault(key, []).append(val)\<close>: an absent key gets a new empty list,
  which then receives \<^verbatim>\<open>val\<close>; a present key keeps its object, and \<^verbatim>\<open>.append\<close>
  raises \<^verbatim>\<open>AttributeError\<close> unless that object is a list. The dict is unchanged when
  the call raises.
\<close>

definition InMemoryStorage_append_val ::
  "key \<Rightarrow> pyval \<Rightarrow> InMemoryStorage \<Rightarrow> error + InMemoryStorage" where
  "InMemoryStorage_append_val k val self =
     (case map_of (mem_storage self) k of
        None \<Rightarrow> Inr (self\<lparr>mem_storage := AList.update k (PList [val]) (mem_storage self)\<rparr>)
      | Some (PList xs) \<Rightarrow>
          Inr (self\<lparr>mem_storage := AList.update k (PList (xs @ [val])) (mem_storage self)\<rparr>)
      | Some _ \<Rightarrow> Inl AttributeError)"

text \<open>\<^verbatim>\<open>self.storage.get(key, [])\<close> returns whatever object the dict holds at the key.\<close>

definition InMemoryStorage_get_list :: "key \<Rightarrow> InMemoryStorage \<Rightarrow> pyval" where
  "InMemoryStorage_get_list k self =
     (case map_of (mem_storage self) k of
        None \<Rightarrow> PList []
      | Some v \<Rightarrow> v)"

definition InMemoryStorage_clear :: "InMemoryStorage \<Rightarrow> InMemoryStorage" where
  "InMemoryStorage_clear self = self\<lparr>mem_storage := []\<rparr>"

section \<open>The value codec\<close>

text \<open>
  The networked backend passes every list entry through \<^verbatim>\<open>json.dumps\<close> on the way in
  and \<^verbatim>\<open>json.loads\<close> on the way out. The model follows the conversion table of
  Python's \<^verbatim>\<open>json\<close> module on the level of JSON documents: which document an object
  becomes, and which object a document becomes. The rendering of a document as text and
  the parsing of that text are not modelled; the service stores documents.
\<close>

datatype json =
    JNull
  | JBool bool
  | JInt int
  | JStr string
  | JArr "json list"
  | JObj "(string \<times> json) list"

text \<open>\<^verbatim>\<open>str(n)\<close> for an integer: decimal digits, a minus sign for negatives.\<close>

fun str_nat :: "nat \<Rightarrow> string" where
  "str_nat n =
     (if n < 10 then [''0123456789'' ! n]
      else str_nat (n div 10) @ [''0123456789'' ! (n mod 10)])"

declare str_nat.simps [simp del]

definition str_int :: "int \<Rightarrow> string" where
  "str_int i = (if i < 0 then CHR ''-'' # str_nat (nat (- i)) else str_nat (nat i))"

text \<open>
  The encoder turns every dictionary key into a string: a string stays, \<^verbatim>\<open>True\<close>,
  \<^verbatim>\<open>False\<close> and \<^verbatim>\<open>None\<close> become \<^verbatim>\<open>"true"\<close>, \<^verbatim>\<open>"false"\<close> and \<^verbatim>\<open>"null"\<close>, an
  integer becomes its decimal form.
\<close>

fun json_key :: "pykey \<Rightarrow> string" where
  "json_key (KStr s) = s"
| "json_key (KBool True) = ''true''"
| "json_key (KBool False) = ''false''"
| "json_key KNone = ''null''"
| "json_key (KInt i) = str_int i"

text \<open>
  \<^verbatim>\<open>json.dumps\<close>: \<open>None\<close> stands for the \<^verbatim>\<open>TypeError\<close> of an object that is not
  JSON serialisable. Lists and tuples both become arrays.
\<close>

fun json_dumps :: "pyval \<Rightarrow> json option" where
  "json_dumps PNone = Some JNull"
| "json_dumps (PBool b) = Some (JBool b)"
| "json_dumps (PInt i) = Some (JInt i)"
| "json_dumps (PStr s) = Some (JStr s)"
| "json_dumps (PBytes b) = None"
| "json_dumps (PList xs) = map_option JArr (those (map json_dumps xs))"
| "json_dumps (PTuple xs) = map_option JArr (those (map json_dumps xs))"
| "json_dumps (PDict kvs) =
     map_option JObj
       (those (map (\<lambda>kv. map_option (Pair (json_key (fst kv))) (json_dumps (snd kv))) kvs))"

text \<open>
  \<^verbatim>\<open>dict(pairs)\<close>: a repeated key keeps its first position and takes the last value.
\<close>

definition py_dict :: "('k \<times> 'v) list \<Rightarrow> ('k \<times> 'v) list" where
  "py_dict pairs = fold (\<lambda>kv d. AList.update (fst kv) (snd kv) d) pairs []"

text \<open>\<^verbatim>\<open>json.loads\<close>: arrays become lists, objects become dictionaries with string keys.\<close>

fun json_loads :: "json \<Rightarrow> pyval" where
  "json_loads JNull = PNone"
| "json_loads (JBool b) = PBool b"
| "json_loads (JInt i) = PInt i"
| "json_loads (JStr s) = PStr s"
| "json_loads (JArr js) = PList (map json_loads js)"
| "json_loads (JObj kvs) = PDict (py_dict (map (\<lambda>kv. (KStr (fst kv), json_loads (snd kv))) kvs))"



section \<open>The key-value service\<close>

text \<open>
  \<^verbatim>\<open>RedisStorage\<close> talks to a Redis server through a \<^verbatim>\<open>redis.StrictRedis\<close> handle.
  The state is the content of the one numbered database the handle selects: every key
  holds either a string or a list. The commands follow the server's documented
  behaviour: SET overwrites a key whatever it held, GET of a missing key is nil
  (\<^verbatim>\<open>None\<close> in the client), RPUSH creates a missing list, LRANGE of a missing key is
  empty, DEL of a missing key does nothing, and a command applied to a key of the other
  type is refused with WRONGTYPE, which the client raises as \<^verbatim>\<open>ResponseError\<close>.
  Scalar values are the byte strings the service stores (the docstrings of
  \<^verbatim>\<open>set_val\<close> and \<^verbatim>\<open>get_val\<close> ask for strings); how the client encodes other
  Python objects is not modelled. The elements of a list are JSON documents, as
  \<^verbatim>\<open>append_val\<close> writes them; a list that another program filled with text that is
  not JSON has no counterpart in the model. Connection failures are not modelled.
\<close>

datatype rval = RString string | RList "json list"

type_synonym redis_db = "(key \<times> rval) list"

definition redis_set :: "key \<Rightarrow> string \<Rightarrow> redis_db \<Rightarrow> redis_db" where
  "redis_set k v db = AList.update k (RString v) db"

definition redis_get :: "key \<Rightarrow> redis_db \<Rightarrow> error + string option" where
  "redis_get k db =
     (case map_of db k of
        None \<Rightarrow> Inr None
      | Some (RString v) \<Rightarrow> Inr (Some v)
      | Some (RList xs) \<Rightarrow> Inl ResponseError)"

definition redis_rpush :: "key \<Rightarrow> json \<Rightarrow> redis_db \<Rightarrow> error + redis_db" where
  "redis_rpush k x db =
     (case map_of db k of
        None \<Rightarrow> Inr (AList.update k (RList [x]) db)
      | Some (RList xs) \<Rightarrow> Inr (AList.update k (RList (xs @ [x])) db)
      | Some (RString v) \<Rightarrow> Inl ResponseError)"

text \<open>
  LRANGE takes inclusive offsets; a negative offset counts from the end of the list, and
  offsets out of range are clamped.
\<close>

definition lrange :: "'a list \<Rightarrow> int \<Rightarrow> int \<Rightarrow> 'a list" where
  "lrange xs start stop =
     (let n = int (length xs);
          s = (if start < 0 then max 0 (n + start) else start);
          e = (if stop < 0 then n + stop else min stop (n - 1))
      in if e < s \<or> n \<le> s then [] else take (nat (e - s + 1)) (drop (nat s) xs))"

definition redis_lrange :: "key \<Rightarrow> int \<Rightarrow> int \<Rightarrow> redis_db \<Rightarrow> error + json list" where
  "redis_lrange k start stop db =
     (case map_of db k of
        None \<Rightarrow> Inr []
      | Some (RList xs) \<Rightarrow> Inr (lrange xs start stop)
      | Some (RString v) \<Rightarrow> Inl ResponseError)"

text \<open>
  KEYS takes a glob pattern. The matcher covers \<^verbatim>\<open>*\<close> (any run of characters),
  \<^verbatim>\<open>?\<close> (any one character) and literal characters; bracket classes and escapes
  are not modelled. The order of the reply is the order of the model's list.
\<close>

fun glob_match :: "string \<Rightarrow> string \<Rightarrow> bool" where
  "glob_match [] s = (s = [])"
| "glob_match (p # ps) [] = (p = CHR ''*'' \<and> glob_match ps [])"
| "glob_match (p # ps) (c # cs) =
     (if p = CHR ''*'' then glob_match ps (c # cs) \<or> glob_match (p # ps) cs
      else (p = CHR ''?'' \<or> p = c) \<and> glob_match ps cs)"

definition redis_keys :: "string \<Rightarrow> redis_db \<Rightarrow> key list" where
  "redis_keys pattern db = filter (glob_match pattern) (map fst db)"

definition redis_delete :: "key \<Rightarrow> redis_db \<Rightarrow> redis_db" where
  "redis_delete k db = AList.delete k db"

section \<open>The networked backend\<close>

text \<open>
  A \<^verbatim>\<open>RedisStorage\<close> object holds its name and the client handle, which is determined
  by the keyword arguments it was built from. The constructor raises \<^verbatim>\<open>ImportError\<close>
  when the \<^verbatim>\<open>redis\<close> module could not be imported (the module-level name is then
  \<^verbatim>\<open>None\<close>). Building the handle opens no connection, and what the client makes of
  the keyword arguments is not modelled. The methods act on the database behind the
  handle, which is passed through them explicitly; \<^verbatim>\<open>clear\<close> asks for the keys once
  and deletes each of them.
\<close>

record RedisStorage =
  redis_name :: string
  redis_storage :: "string \<rightharpoonup> pyval"

definition RedisStorage_init :: "bool \<Rightarrow> (string \<rightharpoonup> pyval) \<Rightarrow> error + RedisStorage" where
  "RedisStorage_init redis_module config =
     (if \<not> redis_module then Inl ImportError
      else Inr \<lparr>redis_name = ''redis'', redis_storage = config\<rparr>)"

definition RedisStorage_keys :: "string \<Rightarrow> redis_db \<Rightarrow> key list" where
  "RedisStorage_keys pattern db = redis_keys pattern db"

definition RedisStorage_set_val :: "key \<Rightarrow> string \<Rightarrow> redis_db \<Rightarrow> redis_db" where
  "RedisStorage_set_val k val db = redis_set k val db"

definition RedisStorage_get_val :: "key \<Rightarrow> redis_db \<Rightarrow> error + string option" where
  "RedisStorage_get_val k db = redis_get k db"

definition RedisStorage_append_val :: "key \<Rightarrow> pyval \<Rightarrow> redis_db \<Rightarrow> error + redis_db" where
  "RedisStorage_append_val k val db =
     (case json_dumps val of
        None \<Rightarrow> Inl TypeError
      | Some j \<Rightarrow> redis_rpush k j db)"

definition RedisStorage_get_list :: "key \<Rightarrow> redis_db \<Rightarrow> error + pyval list" where
  "RedisStorage_get_list k db =
     (case redis_lrange k 0 (- 1) db of
        Inl e \<Rightarrow> Inl e
      | Inr js \<Rightarrow> Inr (map json_loads js))"

definition RedisStorage_clear :: "redis_db \<Rightarrow> redis_db" where
  "RedisStorage_clear db = fold redis_delete (redis_keys ''*'' db) db"

section \<open>The factory\<close>

text \<open>
  \<^verbatim>\<open>storage(storage_config, index)\<close> looks for the key \<^verbatim>\<open>'dict'\<close> first and for
  \<^verbatim>\<open>'redis'\<close> second. In the second branch it assigns \<^verbatim>\<open>index\<close> to the \<^verbatim>\<open>'db'\<close>
  entry of the caller's own parameter dictionary before it calls the constructor, so the
  model returns the descriptor as the call leaves it next to the result. A descriptor
  maps directive names to parameter dictionaries; \<open>redis_module\<close> tells whether the
  import of the client library succeeded.
\<close>

type_synonym params = "string \<rightharpoonup> pyval"

type_synonym descriptor = "string \<rightharpoonup> params"

datatype backend = InMemory InMemoryStorage | Redis RedisStorage

definition storage :: "bool \<Rightarrow> descriptor \<Rightarrow> int \<Rightarrow> (error + backend) \<times> descriptor" where
  "storage redis_module storage_config index =
     (case storage_config ''dict'' of
        Some config \<Rightarrow> (Inr (InMemory (InMemoryStorage_init config)), storage_config)
      | None \<Rightarrow>
          (case storage_config ''redis'' of
             Some config \<Rightarrow>
               (let config' = config(''db'' \<mapsto> PInt index);
                    storage_config' = storage_config(''redis'' \<mapsto> config')
                in (map_sum id Redis (RedisStorage_init redis_module config'), storage_config'))
           | None \<Rightarrow> (Inl ValueError, storage_config)))"

section \<open>Sequences of calls\<close>

text \<open>
  A caller drives a backend through a sequence of method calls. A call that raises
  leaves the state as it was, and the caller may go on; the reading methods change
  nothing.
\<close>

datatype 'v op =
    Keys
  | Set_val key 'v
  | Get_val key
  | Append_val key pyval
  | Get_list key
  | Clear

fun InMemoryStorage_call :: "pyval op \<Rightarrow> InMemoryStorage \<Rightarrow> InMemoryStorage" where
  "InMemoryStorage_call Keys self = self"
| "InMemoryStorage_call (Set_val k v) self = InMemoryStorage_set_val k v self"
| "InMemoryStorage_call (Get_val k) self = self"
| "InMemoryStorage_call (Append_val k v) self =
     (case InMemoryStorage_append_val k v self of Inl e \<Rightarrow> self | Inr self' \<Rightarrow> self')"
| "InMemoryStorage_call (Get_list k) self = self"
| "InMemoryStorage_call Clear self = InMemoryStorage_clear self"

definition InMemoryStorage_calls :: "pyval op list \<Rightarrow> InMemoryStorage \<Rightarrow> InMemoryStorage" where
  "InMemoryStorage_calls ops self = fold InMemoryStorage_call ops self"

fun RedisStorage_call :: "string op \<Rightarrow> redis_db \<Rightarrow> redis_db" where
  "RedisStorage_call Keys db = db"
| "RedisStorage_call (Set_val k v) db = RedisStorage_set_val k v db"
| "RedisStorage_call (Get_val k) db = db"
| "RedisStorage_call (Append_val k v) db =
     (case RedisStorage_append_val k v db of Inl e \<Rightarrow> db | Inr db' \<Rightarrow> db')"
| "RedisStorage_call (Get_list k) db = db"
| "RedisStorage_call Clear db = RedisStorage_clear db"

definition RedisStorage_calls :: "string op list \<Rightarrow> redis_db \<Rightarrow> redis_db" where
  "RedisStorage_calls ops db = fold RedisStorage_call ops db"



text \<open>The calls that write to a key, and the calls that can replace what a key holds.\<close>

fun writes :: "key \<Rightarrow> 'v op \<Rightarrow> bool" where
  "writes k (Set_val k' v) = (k' = k)"
| "writes k (Append_val k' v) = (k' = k)"
| "writes k c = False"

fun overwrites :: "key \<Rightarrow> 'v op \<Rightarrow> bool" where
  "overwrites k (Set_val k' v) = (k' = k)"
| "overwrites k Clear = True"
| "overwrites k c = False"

fun is_Clear :: "'v op \<Rightarrow> bool" where
  "is_Clear Clear = True"
| "is_Clear c = False"

text \<open>
  The keys a sequence of calls has written since the last \<^verbatim>\<open>clear\<close>, in the order of
  their first write.
\<close>

fun note_key :: "'v op \<Rightarrow> key list \<Rightarrow> key list" where
  "note_key (Set_val k v) ks = (if k \<in> set ks then ks else ks @ [k])"
| "note_key (Append_val k v) ks = (if k \<in> set ks then ks else ks @ [k])"
| "note_key Clear ks = []"
| "note_key c ks = ks"

definition written_keys :: "'v op list \<Rightarrow> key list" where
  "written_keys ops = fold note_key ops []"

text \<open>
  One result of \<^verbatim>\<open>get_list\<close> extends another: both are lists and the first is a
  prefix of the second.
\<close>

fun grows :: "pyval \<Rightarrow> pyval \<Rightarrow> bool" where
  "grows (PList xs) (PList ys) = prefix xs ys"
| "grows a b = False"

fun grows_redis :: "error + pyval list \<Rightarrow> error + pyval list \<Rightarrow> bool" where
  "grows_redis (Inr xs) (Inr ys) = prefix xs ys"
| "grows_redis a b = False"

section \<open>Properties\<close>

subsection \<open>The service commands\<close>

lemma glob_star: "glob_match ''*'' s"
  by (induction s) simp_all

lemma redis_keys_star: "redis_keys ''*'' db = map fst db"
  by (simp add: redis_keys_def glob_star)

lemma fold_redis_delete_all:
  "fst ` set db \<subseteq> set ks \<Longrightarrow> fold redis_delete ks db = []"
proof (induction ks arbitrary: db)
  case Nil
  then show ?case by simp
next
  case (Cons k ks)
  have "fst ` set (redis_delete k db) \<subseteq> set ks"
    using Cons.prems by (auto simp: redis_delete_def AList.delete_eq)
  then show ?case using Cons.IH by simp
qed

lemma RedisStorage_clear_empty: "RedisStorage_clear db = []"
  by (simp add: RedisStorage_clear_def redis_keys_star fold_redis_delete_all)

lemma lrange_all: "lrange xs 0 (- 1) = xs"
  by (simp add: lrange_def Let_def)






lemma redis_get_list_RList:
  "map_of db k = Some (RList js) \<Longrightarrow> RedisStorage_get_list k db = Inr (map json_loads js)"
  by (simp add: RedisStorage_get_list_def redis_lrange_def lrange_all)

lemma redis_get_list_absent:
  "map_of db k = None \<Longrightarrow> RedisStorage_get_list k db = Inr []"
  by (simp add: RedisStorage_get_list_def redis_lrange_def)

subsection \<open>Calls that do not write to a key leave it alone\<close>

lemma mem_call_other:
  "\<not> writes k c \<Longrightarrow> \<not> is_Clear c \<Longrightarrow>
   map_of (mem_storage (InMemoryStorage_call c self)) k = map_of (mem_storage self) k"
  by (cases c)
    (auto simp: InMemoryStorage_set_val_def InMemoryStorage_append_val_def update_conv'
      split: option.splits pyval.splits)

lemma mem_call_absent:
  "\<not> writes k c \<Longrightarrow> map_of (mem_storage self) k = None \<Longrightarrow>
   map_of (mem_storage (InMemoryStorage_call c self)) k = None"
  by (cases "is_Clear c") (auto simp: mem_call_other InMemoryStorage_clear_def elim: is_Clear.elims)

lemma mem_calls_absent:
  "list_all (\<lambda>c. \<not> writes k c) ops \<Longrightarrow> map_of (mem_storage self) k = None \<Longrightarrow>
   map_of (mem_storage (InMemoryStorage_calls ops self)) k = None"
  unfolding InMemoryStorage_calls_def
  by (induction ops arbitrary: self) (simp_all add: mem_call_absent)

lemma redis_call_other:
  "\<not> writes k c \<Longrightarrow> \<not> is_Clear c \<Longrightarrow>
   map_of (RedisStorage_call c db) k = map_of db k"
  by (cases c)
    (auto simp: RedisStorage_set_val_def RedisStorage_append_val_def redis_set_def
      redis_rpush_def update_conv' split: option.splits rval.splits)

lemma redis_call_absent:
  "\<not> writes k c \<Longrightarrow> map_of db k = None \<Longrightarrow> map_of (RedisStorage_call c db) k = None"
  by (cases "is_Clear c") (auto simp: redis_call_other RedisStorage_clear_empty elim: is_Clear.elims)

lemma redis_calls_absent:
  "list_all (\<lambda>c. \<not> writes k c) ops \<Longrightarrow> map_of db k = None \<Longrightarrow>
   map_of (RedisStorage_calls ops db) k = None"
  unfolding RedisStorage_calls_def
  by (induction ops arbitrary: db) (simp_all add: redis_call_absent)

subsection \<open>Appending to a list\<close>





subsection \<open>The keys of the in-memory dict\<close>

lemma mem_keys_call:
  "InMemoryStorage_keys (InMemoryStorage_call c self) = note_key c (InMemoryStorage_keys self)"
proof (cases c)
  case (Set_val k v)
  then show ?thesis
    by (simp add: InMemoryStorage_keys_def InMemoryStorage_set_val_def update_keys image_iff)
next
  case (Append_val k v)
  show ?thesis
  proof (cases "map_of (mem_storage self) k")
    case None
    then have "k \<notin> fst ` set (mem_storage self)" by (simp add: map_of_eq_None_iff)
    then show ?thesis using None Append_val
      by (simp add: InMemoryStorage_keys_def InMemoryStorage_append_val_def update_keys)
  next
    case (Some a)
    then have "k \<in> fst ` set (mem_storage self)"
      by (metis map_of_eq_None_iff option.distinct(1))
    then show ?thesis using Some Append_val
      by (cases a)
        (simp_all add: InMemoryStorage_keys_def InMemoryStorage_append_val_def update_keys)
  qed
qed (simp_all add: InMemoryStorage_keys_def InMemoryStorage_clear_def)

lemma mem_keys_calls:
  "InMemoryStorage_keys (fold InMemoryStorage_call ops self)
     = fold note_key ops (InMemoryStorage_keys self)"
  by (induction ops arbitrary: self) (simp_all add: mem_keys_call)

subsection \<open>Calls that do not replace a list let it grow\<close>

lemma mem_call_grows:
  assumes "\<not> overwrites k c"
    and "map_of (mem_storage self) k = None \<or> (\<exists>xs. map_of (mem_storage self) k = Some (PList xs))"
  shows "grows (InMemoryStorage_get_list k self) (InMemoryStorage_get_list k (InMemoryStorage_call c self)) \<and>
    (map_of (mem_storage (InMemoryStorage_call c self)) k = None \<or>
     (\<exists>xs. map_of (mem_storage (InMemoryStorage_call c self)) k = Some (PList xs)))"
proof (cases c)
  case (Set_val k' v)
  then show ?thesis using assms
    by (auto simp: InMemoryStorage_get_list_def InMemoryStorage_set_val_def update_conv')
next
  case (Append_val k' v)
  then show ?thesis using assms
    by (auto simp: InMemoryStorage_get_list_def InMemoryStorage_append_val_def update_conv'
        split: option.splits pyval.splits)
next
  case Clear
  then show ?thesis using assms by simp
qed (use assms in \<open>auto simp: InMemoryStorage_get_list_def\<close>)

lemma mem_calls_list:
  "list_all (\<lambda>c. \<not> overwrites k c) ops \<Longrightarrow>
   map_of (mem_storage self) k = None \<or> (\<exists>xs. map_of (mem_storage self) k = Some (PList xs)) \<Longrightarrow>
   map_of (mem_storage (fold InMemoryStorage_call ops self)) k = None \<or>
     (\<exists>xs. map_of (mem_storage (fold InMemoryStorage_call ops self)) k = Some (PList xs))"
proof (induction ops arbitrary: self)
  case Nil
  then show ?case by simp
next
  case (Cons c ops)
  show ?case using Cons.IH [of "InMemoryStorage_call c self"] Cons.prems
      mem_call_grows [of k c self] by simp
qed

lemma redis_call_grows:
  assumes "\<not> overwrites k c"
    and "map_of db k = None \<or> (\<exists>js. map_of db k = Some (RList js))"
  shows "grows_redis (RedisStorage_get_list k db) (RedisStorage_get_list k (RedisStorage_call c db)) \<and>
    (map_of (RedisStorage_call c db) k = None \<or>
     (\<exists>js. map_of (RedisStorage_call c db) k = Some (RList js)))"
proof (cases c)
  case (Set_val k' v)
  then show ?thesis using assms
    by (auto simp: redis_get_list_RList redis_get_list_absent RedisStorage_set_val_def
        redis_set_def update_conv')
next
  case (Append_val k' v)
  then show ?thesis using assms
    by (auto simp: redis_get_list_RList redis_get_list_absent RedisStorage_append_val_def
        redis_rpush_def update_conv' split: option.splits rval.splits)
next
  case Clear
  then show ?thesis using assms by simp
qed (use assms in \<open>auto simp: redis_get_list_RList redis_get_list_absent\<close>)

lemma redis_calls_list:
  "list_all (\<lambda>c. \<not> overwrites k c) ops \<Longrightarrow>
   map_of db k = None \<or> (\<exists>js. map_of db k = Some (RList js)) \<Longrightarrow>
   map_of (fold RedisStorage_call ops db) k = None \<or>
     (\<exists>js. map_of (fold RedisStorage_call ops db) k = Some (RList js))"
proof (induction ops arbitrary: db)
  case Nil
  then show ?case by simp
next
  case (Cons c ops)
  show ?case using Cons.IH [of "RedisStorage_call c db"] Cons.prems
      redis_call_grows [of k c db] by simp
qed

section \<open>The claims\<close>







text \<open>
  C3, as the code has it. For every key \<open>k\<close> that neither \<^verbatim>\<open>set_val\<close> nor
  \<^verbatim>\<open>append_val\<close> was called on, \<^verbatim>\<open>get_val(k)\<close> fails with \<^verbatim>\<open>KeyError\<close> on the
  in-memory backend (after any sequence of other calls on a new instance), and returns
  \<^verbatim>\<open>None\<close> without failing on the networked backend (after any sequence of other
  calls on a database that does not hold \<open>k\<close>).
\<close>

theorem get_val_unwritten:
  assumes "list_all (\<lambda>c. \<not> writes k c) ops" and "list_all (\<lambda>c. \<not> writes k c) rops"
    and "map_of db k = None"
  shows "InMemoryStorage_get_val k (InMemoryStorage_calls ops (InMemoryStorage_init config))
           = Inl KeyError \<and>
         RedisStorage_get_val k (RedisStorage_calls rops db) = Inr None"
  using mem_calls_absent [OF assms(1), of "InMemoryStorage_init config"]
    redis_calls_absent [OF assms(2,3)]
  by (simp add: InMemoryStorage_get_val_def InMemoryStorage_init_def RedisStorage_get_val_def
      redis_get_def)

text \<open>
  \<^verbatim>\<open>get_val("h2")\<close> after other keys were written.
\<close>

theorem get_val_unwritten_witness:
  "list_all (\<lambda>c. \<not> writes ''h2'' c) [Append_val ''h1'' (PInt 42), Set_val ''h3'' (PStr ''x'')] \<and>
   list_all (\<lambda>c. \<not> writes ''h2'' c) [Append_val ''h1'' (PInt 42), Set_val ''h3'' ''x''] \<and>
   map_of [(''h0'', RString ''s'')] ''h2'' = None \<and>
   InMemoryStorage_get_val ''h2''
     (InMemoryStorage_calls [Append_val ''h1'' (PInt 42), Set_val ''h3'' (PStr ''x'')]
        (InMemoryStorage_init ())) = Inl KeyError \<and>
   RedisStorage_get_val ''h2''
     (RedisStorage_calls [Append_val ''h1'' (PInt 42), Set_val ''h3'' ''x'']
        [(''h0'', RString ''s'')]) = Inr None"
  using get_val_unwritten [of "''h2''"
      "[Append_val ''h1'' (PInt 42), Set_val ''h3'' (PStr ''x'')]"
      "[Append_val ''h1'' (PInt 42), Set_val ''h3'' ''x'']"
      "[(''h0'', RString ''s'')]" "()"]
  by simp

text \<open>
  C3 as stated fails on both backends. In memory, lists and scalars share one dict:
  after \<^verbatim>\<open>append_val("h1", 42)\<close> and no \<^verbatim>\<open>set_val\<close>, \<^verbatim>\<open>get_val("h1")\<close> returns the
  list \<^verbatim>\<open>[42]\<close>. On an empty database, \<^verbatim>\<open>get_val("h1")\<close> returns \<^verbatim>\<open>None\<close>.
\<close>

theorem get_val_counterexample:
  "InMemoryStorage_get_val ''h1''
     (InMemoryStorage_calls [Append_val ''h1'' (PInt 42)] (InMemoryStorage_init ()))
     = Inr (PList [PInt 42]) \<and>
   RedisStorage_get_val ''h1'' (RedisStorage_calls [] []) = Inr None"
  by (simp add: InMemoryStorage_calls_def InMemoryStorage_init_def InMemoryStorage_append_val_def
      InMemoryStorage_get_val_def RedisStorage_calls_def RedisStorage_get_val_def redis_get_def)


text \<open>
  C5, as the code has it. For every key \<open>k\<close> and every sequence of calls that contains
  neither \<^verbatim>\<open>clear()\<close> nor \<^verbatim>\<open>set_val\<close> on \<open>k\<close> itself, the result of
  \<^verbatim>\<open>get_list(k)\<close> before a call is a prefix of its result after the call: on a new
  in-memory instance, and on a database in which \<open>k\<close> holds nothing or a list of JSON
  documents when the sequence starts.
\<close>

theorem get_list_only_grows:
  assumes "list_all (\<lambda>c. \<not> overwrites k c) (ops @ [c])"
    and "list_all (\<lambda>c. \<not> overwrites k c) (rops @ [rc])"
    and "map_of db k = None \<or> (\<exists>js. map_of db k = Some (RList js))"
  shows "grows
           (InMemoryStorage_get_list k (InMemoryStorage_calls ops (InMemoryStorage_init config)))
           (InMemoryStorage_get_list k
              (InMemoryStorage_calls (ops @ [c]) (InMemoryStorage_init config))) \<and>
         grows_redis
           (RedisStorage_get_list k (RedisStorage_calls rops db))
           (RedisStorage_get_list k (RedisStorage_calls (rops @ [rc]) db))"
proof
  have "map_of (mem_storage (InMemoryStorage_init config)) k = None"
    by (simp add: InMemoryStorage_init_def)
  then show "grows
       (InMemoryStorage_get_list k (InMemoryStorage_calls ops (InMemoryStorage_init config)))
       (InMemoryStorage_get_list k
          (InMemoryStorage_calls (ops @ [c]) (InMemoryStorage_init config)))"
    using assms(1) mem_calls_list [of k ops "InMemoryStorage_init config"]
      mem_call_grows [of k c "fold InMemoryStorage_call ops (InMemoryStorage_init config)"]
    by (simp add: InMemoryStorage_calls_def)
next
  show "grows_redis
       (RedisStorage_get_list k (RedisStorage_calls rops db))
       (RedisStorage_get_list k (RedisStorage_calls (rops @ [rc]) db))"
    using assms(2,3) redis_calls_list [of k rops db]
      redis_call_grows [of k rc "fold RedisStorage_call rops db"]
    by (simp add: RedisStorage_calls_def)
qed

text \<open>
  Two appends at \<^verbatim>\<open>"h1"\<close> with a \<^verbatim>\<open>set_val\<close> on another key between them.
\<close>

theorem get_list_only_grows_witness:
  "list_all (\<lambda>c. \<not> overwrites ''h1'' c)
     ([Append_val ''h1'' (PInt 42), Set_val ''h2'' (PStr ''x'')] @ [Append_val ''h1'' (PInt 7)]) \<and>
   list_all (\<lambda>c. \<not> overwrites ''h1'' c)
     ([Append_val ''h1'' (PInt 42), Set_val ''h2'' ''x''] @ [Append_val ''h1'' (PInt 7)]) \<and>
   (map_of [(''h1'', RList [JInt 1])] ''h1'' = None \<or>
      map_of [(''h1'', RList [JInt 1])] ''h1'' = Some (RList [JInt 1])) \<and>
   grows
     (InMemoryStorage_get_list ''h1''
        (InMemoryStorage_calls [Append_val ''h1'' (PInt 42), Set_val ''h2'' (PStr ''x'')]
           (InMemoryStorage_init ())))
     (InMemoryStorage_get_list ''h1''
        (InMemoryStorage_calls
           ([Append_val ''h1'' (PInt 42), Set_val ''h2'' (PStr ''x'')] @ [Append_val ''h1'' (PInt 7)])
           (InMemoryStorage_init ()))) \<and>
   grows_redis
     (RedisStorage_get_list ''h1''
        (RedisStorage_calls [Append_val ''h1'' (PInt 42), Set_val ''h2'' ''x'']
           [(''h1'', RList [JInt 1])]))
     (RedisStorage_get_list ''h1''
        (RedisStorage_calls
           ([Append_val ''h1'' (PInt 42), Set_val ''h2'' ''x''] @ [Append_val ''h1'' (PInt 7)])
           [(''h1'', RList [JInt 1])]))"
  using get_list_only_grows [of "''h1''"
      "[Append_val ''h1'' (PInt 42), Set_val ''h2'' (PStr ''x'')]" "Append_val ''h1'' (PInt 7)"
      "[Append_val ''h1'' (PInt 42), Set_val ''h2'' ''x'']" "Append_val ''h1'' (PInt 7)"
      "[(''h1'', RList [JInt 1])]" "()"]
  by simp

text \<open>
  C5 as stated fails: \<^verbatim>\<open>set_val\<close> is not \<^verbatim>\<open>clear\<close>, and it replaces the list. After
  \<^verbatim>\<open>append_val("h1", 42)\<close>, the call \<^verbatim>\<open>set_val("h1", "x")\<close> makes the in-memory
  \<^verbatim>\<open>get_list("h1")\<close> return the string \<^verbatim>\<open>"x"\<close>, and makes the networked one fail
  with the service's WRONGTYPE error.
\<close>

theorem get_list_shrinks_counterexample:
  "\<not> is_Clear (Append_val ''h1'' (PInt 42) :: pyval op) \<and>
   \<not> is_Clear (Set_val ''h1'' (PStr ''x'')) \<and>
   InMemoryStorage_get_list ''h1''
     (InMemoryStorage_calls [Append_val ''h1'' (PInt 42)] (InMemoryStorage_init ()))
     = PList [PInt 42] \<and>
   InMemoryStorage_get_list ''h1''
     (InMemoryStorage_calls [Append_val ''h1'' (PInt 42), Set_val ''h1'' (PStr ''x'')]
        (InMemoryStorage_init ()))
     = PStr ''x'' \<and>
   \<not> grows
     (InMemoryStorage_get_list ''h1''
        (InMemoryStorage_calls [Append_val ''h1'' (PInt 42)] (InMemoryStorage_init ())))
     (InMemoryStorage_get_list ''h1''
        (InMemoryStorage_calls [Append_val ''h1'' (PInt 42), Set_val ''h1'' (PStr ''x'')]
           (InMemoryStorage_init ()))) \<and>
   RedisStorage_get_list ''h1'' (RedisStorage_calls [Append_val ''h1'' (PInt 42)] [])
     = Inr [PInt 42] \<and>
   RedisStorage_get_list ''h1''
     (RedisStorage_calls [Append_val ''h1'' (PInt 42), Set_val ''h1'' ''x''] [])
     = Inl ResponseError \<and>
   \<not> grows_redis
     (RedisStorage_get_list ''h1'' (RedisStorage_calls [Append_val ''h1'' (PInt 42)] []))
     (RedisStorage_get_list ''h1''
        (RedisStorage_calls [Append_val ''h1'' (PInt 42), Set_val ''h1'' ''x''] []))"
  by (simp add: InMemoryStorage_calls_def InMemoryStorage_init_def InMemoryStorage_append_val_def
      InMemoryStorage_set_val_def InMemoryStorage_get_list_def
      RedisStorage_calls_def RedisStorage_append_val_def RedisStorage_set_val_def
      RedisStorage_get_list_def redis_rpush_def redis_set_def redis_lrange_def lrange_all)

text \<open>
  C6. For every key \<open>k\<close> that no \<^verbatim>\<open>append_val\<close> and no \<^verbatim>\<open>set_val\<close> was performed
  on, \<^verbatim>\<open>get_list(k)\<close> returns the empty list and does not fail: on the in-memory
  backend after any sequence of other calls on a new instance, on the networked backend
  after any sequence of other calls on a database that does not hold \<open>k\<close>.
\<close>

theorem get_list_unwritten:
  assumes "list_all (\<lambda>c. \<not> writes k c) ops" and "list_all (\<lambda>c. \<not> writes k c) rops"
    and "map_of db k = None"
  shows "InMemoryStorage_get_list k (InMemoryStorage_calls ops (InMemoryStorage_init config))
           = PList [] \<and>
         RedisStorage_get_list k (RedisStorage_calls rops db) = Inr []"
  using mem_calls_absent [OF assms(1), of "InMemoryStorage_init config"]
    redis_calls_absent [OF assms(2,3)]
  by (simp add: InMemoryStorage_get_list_def InMemoryStorage_init_def RedisStorage_get_list_def
      redis_lrange_def)

text \<open>
  The second half of the specification's scenario: \<^verbatim>\<open>"h2"\<close> is read after other keys
  were written.
\<close>

theorem get_list_unwritten_witness:
  "list_all (\<lambda>c. \<not> writes ''h2'' c)
     [Append_val ''h1'' (PInt 42), Set_val ''h3'' (PStr ''x''), Get_list ''h2''] \<and>
   list_all (\<lambda>c. \<not> writes ''h2'' c) [Append_val ''h1'' (PInt 42), Set_val ''h3'' ''x''] \<and>
   map_of [(''h0'', RString ''s'')] ''h2'' = None \<and>
   InMemoryStorage_get_list ''h2''
     (InMemoryStorage_calls
        [Append_val ''h1'' (PInt 42), Set_val ''h3'' (PStr ''x''), Get_list ''h2'']
        (InMemoryStorage_init ())) = PList [] \<and>
   RedisStorage_get_list ''h2''
     (RedisStorage_calls [Append_val ''h1'' (PInt 42), Set_val ''h3'' ''x'']
        [(''h0'', RString ''s'')]) = Inr []"
  using get_list_unwritten [of "''h2''"
      "[Append_val ''h1'' (PInt 42), Set_val ''h3'' (PStr ''x''), Get_list ''h2'']"
      "[Append_val ''h1'' (PInt 42), Set_val ''h3'' ''x'']"
      "[(''h0'', RString ''s'')]" "()"]
  by simp

text \<open>
  C7. In every state of a backend, after \<^verbatim>\<open>clear()\<close> the call \<^verbatim>\<open>keys()\<close> returns
  an empty sequence and \<^verbatim>\<open>get_list(k)\<close> returns the empty list for every key \<open>k\<close>.
\<close>

theorem clear_then_empty:
  "InMemoryStorage_keys (InMemoryStorage_clear self) = [] \<and>
   InMemoryStorage_get_list k (InMemoryStorage_clear self) = PList [] \<and>
   RedisStorage_keys ''*'' (RedisStorage_clear db) = [] \<and>
   RedisStorage_get_list k (RedisStorage_clear db) = Inr []"
  by (simp add: InMemoryStorage_keys_def InMemoryStorage_clear_def InMemoryStorage_get_list_def
      RedisStorage_keys_def RedisStorage_clear_empty redis_keys_def redis_get_list_absent)




text \<open>
  C9, as the code has it. On the in-memory backend, \<^verbatim>\<open>keys()\<close> returns the keys of
  the one storage dict: every key written by \<^verbatim>\<open>set_val\<close> or by \<^verbatim>\<open>append_val\<close> since
  the instance was created or last cleared, in the order of their first write.
\<close>

theorem keys_are_written_keys:
  "InMemoryStorage_keys (InMemoryStorage_calls ops (InMemoryStorage_init config))
     = written_keys ops"
  by (simp add: InMemoryStorage_calls_def written_keys_def mem_keys_calls)
    (simp add: InMemoryStorage_keys_def InMemoryStorage_init_def)

text \<open>
  C9 as stated fails: after \<^verbatim>\<open>append_val("h1", 42)\<close> alone on a new instance,
  \<^verbatim>\<open>keys()\<close> contains \<^verbatim>\<open>"h1"\<close>.
\<close>

theorem keys_counterexample:
  "InMemoryStorage_keys
     (InMemoryStorage_calls [Append_val ''h1'' (PInt 42)] (InMemoryStorage_init ())) = [''h1'']"
  by (simp add: InMemoryStorage_calls_def InMemoryStorage_init_def InMemoryStorage_append_val_def
      InMemoryStorage_keys_def)

text \<open>
  C10, as the code has it. When the descriptor has the key \<^verbatim>\<open>'redis'\<close> and not the
  key \<^verbatim>\<open>'dict'\<close>, the factory assigns the index to the \<^verbatim>\<open>'db'\<close> entry of the
  caller's \<^verbatim>\<open>'redis'\<close> parameters before it builds the backend, also when the
  constructor then fails; the descriptor is left as it was only if that entry already
  was the index.
\<close>

theorem storage_sets_db:
  "storage_config ''dict'' = None \<and> storage_config ''redis'' = Some config \<longrightarrow>
     snd (storage redis_module storage_config index)
       = storage_config(''redis'' \<mapsto> config(''db'' \<mapsto> PInt index)) \<and>
     (snd (storage redis_module storage_config index) = storage_config
        \<longleftrightarrow> config ''db'' = Some (PInt index))"
proof (intro impI conjI)
  assume a: "storage_config ''dict'' = None \<and> storage_config ''redis'' = Some config"
  then show eq: "snd (storage redis_module storage_config index)
       = storage_config(''redis'' \<mapsto> config(''db'' \<mapsto> PInt index))"
    by (simp add: storage_def Let_def)
  show "snd (storage redis_module storage_config index) = storage_config
        \<longleftrightarrow> config ''db'' = Some (PInt index)"
  proof
    assume "snd (storage redis_module storage_config index) = storage_config"
    then have "(storage_config(''redis'' \<mapsto> config(''db'' \<mapsto> PInt index))) ''redis''
        = storage_config ''redis''" using eq by simp
    then have "config(''db'' \<mapsto> PInt index) = config" using a by simp
    then have "(config(''db'' \<mapsto> PInt index)) ''db'' = config ''db''" by simp
    then show "config ''db'' = Some (PInt index)" by simp
  next
    assume "config ''db'' = Some (PInt index)"
    then have "config(''db'' \<mapsto> PInt index) = config" by (simp add: map_upd_triv)
    then show "snd (storage redis_module storage_config index) = storage_config"
      using eq a by (simp add: map_upd_triv)
  qed
qed

text \<open>
  The assignment is made even though the client library is missing and the call
  fails.
\<close>

theorem storage_sets_db_witness:
  "snd (storage False [''redis'' \<mapsto> [''host'' \<mapsto> PStr ''localhost'']] 3)
     = [''redis'' \<mapsto> [''host'' \<mapsto> PStr ''localhost'', ''db'' \<mapsto> PInt 3]] \<and>
   snd (storage False [''redis'' \<mapsto> [''host'' \<mapsto> PStr ''localhost'']] 3)
     \<noteq> [''redis'' \<mapsto> [''host'' \<mapsto> PStr ''localhost'']]"
proof -
  let ?p = "[''host'' \<mapsto> PStr ''localhost'']"
  have h: "[''redis'' \<mapsto> ?p] ''dict'' = None \<and> [''redis'' \<mapsto> ?p] ''redis'' = Some ?p"
    by simp
  have d: "?p ''db'' \<noteq> Some (PInt 3)"
    by simp
  have "snd (storage False [''redis'' \<mapsto> ?p] 3) = [''redis'' \<mapsto> ?p](''redis'' \<mapsto> ?p(''db'' \<mapsto> PInt 3))"
    and "snd (storage False [''redis'' \<mapsto> ?p] 3) \<noteq> [''redis'' \<mapsto> ?p]"
    using storage_sets_db [of "[''redis'' \<mapsto> ?p]" ?p False 3] h d by blast+
  then show ?thesis by simp
qed

text \<open>
  C10 as stated fails for a descriptor that has \<^verbatim>\<open>'redis'\<close> and \<^verbatim>\<open>'dict'\<close>: the
  in-memory branch is taken and the descriptor is left unchanged, with no \<^verbatim>\<open>'db'\<close>
  entry.
\<close>

theorem storage_dict_first_counterexample:
  "snd (storage True [''dict'' \<mapsto> Map.empty, ''redis'' \<mapsto> Map.empty] 3)
     = [''dict'' \<mapsto> Map.empty, ''redis'' \<mapsto> Map.empty] \<and>
   the (snd (storage True [''dict'' \<mapsto> Map.empty, ''redis'' \<mapsto> Map.empty] 3) ''redis'') ''db''
     = None"
  by (simp add: storage_def)

end
